theory Spec2Isabelle
  imports Main "HOL-Library.Word"
begin

section \<open>Bytes, typed arrays and JavaScript strings\<close>

text \<open>
  The scripts work on \<^verbatim>\<open>Uint8Array\<close> values and on JavaScript strings. A typed
  array is modelled by the list of its bytes, a string by a \<^typ>\<open>string\<close>; the
  addresses, object ids and hex strings the scripts handle are ASCII.
  Every exception the modelled code can raise is a value of \<open>error\<close>.
\<close>

type_synonym byte = "8 word"

type_synonym Uint8Array = "byte list"

datatype error =
    MalformedHexInput   \<comment> \<open>the hex decoder rejects its argument\<close>
  | RangeError          \<comment> \<open>\<^verbatim>\<open>TypedArray.prototype.set\<close>: source does not fit at the offset\<close>
  | AbortError          \<comment> \<open>a fetch aborted by its \<^verbatim>\<open>AbortController\<close>\<close>
  | TypeError           \<comment> \<open>a fetch or a body read that fails on the network\<close>

text \<open>\<^verbatim>\<open>s.startsWith(p)\<close> and \<^verbatim>\<open>s.slice(k)\<close> for a non-negative \<open>k\<close>.\<close>

definition startsWith :: "string \<Rightarrow> string \<Rightarrow> bool" where
  "startsWith s p = (take (length p) s = p)"

definition slice_from :: "string \<Rightarrow> nat \<Rightarrow> string" where
  "slice_from s k = drop k s"

text \<open>
  \<^verbatim>\<open>new Uint8Array(len)\<close> is zero-filled. \<^verbatim>\<open>target.set(source, offset)\<close> copies
  \<open>source\<close> into \<open>target\<close> starting at \<open>offset\<close> and throws a \<^verbatim>\<open>RangeError\<close> when
  \<open>offset + source.length\<close> exceeds \<open>target.length\<close>. The spread
  \<^verbatim>\<open>new Uint8Array([...a, ...b])\<close> of two typed arrays is their concatenation.
  Lengths are natural numbers: the engine's upper limit on the length of a typed array
  is not modelled.
\<close>

definition new_Uint8Array :: "nat \<Rightarrow> Uint8Array" where
  "new_Uint8Array len = replicate len 0"

definition Uint8Array_set :: "Uint8Array \<Rightarrow> Uint8Array \<Rightarrow> nat \<Rightarrow> error + Uint8Array" where
  "Uint8Array_set target source offset =
     (if length target < offset + length source then Inl RangeError
      else Inr (take offset target @ source @ drop (offset + length source) target))"

definition Uint8Array_spread :: "Uint8Array \<Rightarrow> Uint8Array \<Rightarrow> Uint8Array" where
  "Uint8Array_spread a b = a @ b"


section \<open>The hex codec\<close>

text \<open>
  Modelled from the spec: \<^verbatim>\<open>fromHex\<close> and \<^verbatim>\<open>toHex\<close> are imported by every script
  from the package \<^verbatim>\<open>@mysten/sui/utils\<close>, whose code is not among the sources. The
  spec says that decoding a textual form fails with \<open>MalformedHexInput\<close> when the hex
  string has odd length or non-hex characters, and that an identifier is encoded as a
  hex string for transport, two lowercase digits per byte in its example. The
  functions of the scripts below take the decoder as an argument \<open>dec\<close>, so what is
  proved about them for every \<open>dec\<close> does not rest on this model.
\<close>

definition hexval :: "char \<Rightarrow> nat option" where
  "hexval c = map_of
     [(CHR ''0'', 0), (CHR ''1'', 1), (CHR ''2'', 2), (CHR ''3'', 3), (CHR ''4'', 4),
      (CHR ''5'', 5), (CHR ''6'', 6), (CHR ''7'', 7), (CHR ''8'', 8), (CHR ''9'', 9),
      (CHR ''a'', 10), (CHR ''b'', 11), (CHR ''c'', 12), (CHR ''d'', 13), (CHR ''e'', 14),
      (CHR ''f'', 15),
      (CHR ''A'', 10), (CHR ''B'', 11), (CHR ''C'', 12), (CHR ''D'', 13), (CHR ''E'', 14),
      (CHR ''F'', 15)] c"

definition is_hex_digit :: "char \<Rightarrow> bool" where
  "is_hex_digit c = (hexval c \<noteq> None)"

definition hex_string :: "string \<Rightarrow> bool" where
  "hex_string s = list_all is_hex_digit s"

definition well_formed_hex :: "string \<Rightarrow> bool" where
  "well_formed_hex s = (even (length s) \<and> hex_string s)"

fun fromHex :: "string \<Rightarrow> error + Uint8Array" where
  "fromHex [] = Inr []"
| "fromHex [c] = Inl MalformedHexInput"
| "fromHex (c # d # cs) =
     (case (hexval c, hexval d) of
        (Some hi, Some lo) \<Rightarrow>
          (case fromHex cs of
             Inl e \<Rightarrow> Inl e
           | Inr bytes \<Rightarrow> Inr (of_nat (16 * hi + lo) # bytes))
      | _ \<Rightarrow> Inl MalformedHexInput)"

definition hexdigit :: "nat \<Rightarrow> char" where
  "hexdigit k = ''0123456789abcdef'' ! k"

definition toHex :: "Uint8Array \<Rightarrow> string" where
  "toHex bytes = concat (map (\<lambda>b. [hexdigit (unat b div 16), hexdigit (unat b mod 16)]) bytes)"


section \<open>Identifier derivation\<close>

text \<open>
  \<^verbatim>\<open>computeKeyId(sender, nonce)\<close> is written out three times, with the same body, in
  \<^verbatim>\<open>upload_walrus.ts\<close>, \<^verbatim>\<open>download_walrus.ts\<close> and \<^verbatim>\<open>decrypt_sui_data.ts\<close>:
  strip a leading \<^verbatim>\<open>0x\<close> from the sender, decode it, allocate a zeroed array for both
  parts, copy the sender bytes to offset 0 and the nonce behind them.
\<close>

definition computeKeyId_upload_walrus ::
  "(string \<Rightarrow> error + Uint8Array) \<Rightarrow> string \<Rightarrow> Uint8Array \<Rightarrow> error + Uint8Array" where
  "computeKeyId_upload_walrus dec sender nonce =
     (let senderHex = (if startsWith sender ''0x'' then slice_from sender 2 else sender) in
      case dec senderHex of
        Inl e \<Rightarrow> Inl e
      | Inr senderBytes \<Rightarrow>
          (let keyId = new_Uint8Array (length senderBytes + length nonce) in
           case Uint8Array_set keyId senderBytes 0 of
             Inl e \<Rightarrow> Inl e
           | Inr keyId1 \<Rightarrow>
               (case Uint8Array_set keyId1 nonce (length senderBytes) of
                  Inl e \<Rightarrow> Inl e
                | Inr keyId2 \<Rightarrow> Inr keyId2)))"

definition computeKeyId_download_walrus ::
  "(string \<Rightarrow> error + Uint8Array) \<Rightarrow> string \<Rightarrow> Uint8Array \<Rightarrow> error + Uint8Array" where
  "computeKeyId_download_walrus dec sender nonce =
     (let senderHex = (if startsWith sender ''0x'' then slice_from sender 2 else sender) in
      case dec senderHex of
        Inl e \<Rightarrow> Inl e
      | Inr senderBytes \<Rightarrow>
          (let keyId = new_Uint8Array (length senderBytes + length nonce) in
           case Uint8Array_set keyId senderBytes 0 of
             Inl e \<Rightarrow> Inl e
           | Inr keyId1 \<Rightarrow>
               (case Uint8Array_set keyId1 nonce (length senderBytes) of
                  Inl e \<Rightarrow> Inl e
                | Inr keyId2 \<Rightarrow> Inr keyId2)))"

definition computeKeyId_decrypt_sui_data ::
  "(string \<Rightarrow> error + Uint8Array) \<Rightarrow> string \<Rightarrow> Uint8Array \<Rightarrow> error + Uint8Array" where
  "computeKeyId_decrypt_sui_data dec sender nonce =
     (let senderHex = (if startsWith sender ''0x'' then slice_from sender 2 else sender) in
      case dec senderHex of
        Inl e \<Rightarrow> Inl e
      | Inr senderBytes \<Rightarrow>
          (let keyId = new_Uint8Array (length senderBytes + length nonce) in
           case Uint8Array_set keyId senderBytes 0 of
             Inl e \<Rightarrow> Inl e
           | Inr keyId1 \<Rightarrow>
               (case Uint8Array_set keyId1 nonce (length senderBytes) of
                  Inl e \<Rightarrow> Inl e
                | Inr keyId2 \<Rightarrow> Inr keyId2)))"

text \<open>
  The allowlist upload script derives its identifier inline in \<^verbatim>\<open>main\<close>:
  \<^verbatim>\<open>policyObjectBytes = fromHex(allowlistId.startsWith('0x') ? allowlistId.slice(2) : allowlistId)\<close>
  and then \<^verbatim>\<open>new Uint8Array([...policyObjectBytes, ...nonce])\<close>, which it hands to
  \<^verbatim>\<open>toHex\<close>.
\<close>

definition allowlist_keyId ::
  "(string \<Rightarrow> error + Uint8Array) \<Rightarrow> string \<Rightarrow> Uint8Array \<Rightarrow> error + Uint8Array" where
  "allowlist_keyId dec allowlistId nonce =
     (case dec (if startsWith allowlistId ''0x'' then slice_from allowlistId 2 else allowlistId) of
        Inl e \<Rightarrow> Inl e
      | Inr policyObjectBytes \<Rightarrow> Inr (Uint8Array_spread policyObjectBytes nonce))"

definition allowlist_encryptionId ::
  "(string \<Rightarrow> error + Uint8Array) \<Rightarrow> (Uint8Array \<Rightarrow> string) \<Rightarrow> string \<Rightarrow> Uint8Array
     \<Rightarrow> error + string" where
  "allowlist_encryptionId dec enc allowlistId nonce =
     (case allowlist_keyId dec allowlistId nonce of
        Inl e \<Rightarrow> Inl e
      | Inr keyId \<Rightarrow> Inr (enc keyId))"

text \<open>
  \<^verbatim>\<open>main\<close> of \<^verbatim>\<open>upload_walrus.ts\<close>: \<^verbatim>\<open>keyId = computeKeyId(keypair.toSuiAddress(), nonce)\<close>
  and \<^verbatim>\<open>encryptionId = toHex(keyId)\<close>.
\<close>

definition upload_encryptionId ::
  "(string \<Rightarrow> error + Uint8Array) \<Rightarrow> (Uint8Array \<Rightarrow> string) \<Rightarrow> string \<Rightarrow> Uint8Array
     \<Rightarrow> error + string" where
  "upload_encryptionId dec enc address nonce =
     (case computeKeyId_upload_walrus dec address nonce of
        Inl e \<Rightarrow> Inl e
      | Inr keyId \<Rightarrow> Inr (enc keyId))"

text \<open>The sender text that reaches the decoder, as each derivation writes it inline.\<close>

definition strip0x :: "string \<Rightarrow> string" where
  "strip0x s = (if startsWith s ''0x'' then slice_from s 2 else s)"


section \<open>The derivation on a store of typed arrays\<close>

text \<open>
  In the running script a \<^verbatim>\<open>Uint8Array\<close> is an object that is passed by reference
  and written in place. To see what \<open>computeKeyId\<close> reads and writes, the same body
  (the copy of \<^verbatim>\<open>upload_walrus.ts\<close>) is run here on a store: the list of the typed
  arrays allocated so far, a reference being an index into it. The decoder returns a
  new array, \<^verbatim>\<open>new Uint8Array(len)\<close> allocates one, and \<^verbatim>\<open>set\<close> overwrites the
  target's cell. The nonce is the reference the caller holds.
\<close>

type_synonym ref = nat

type_synonym heap = "Uint8Array list"

definition heap_alloc :: "Uint8Array \<Rightarrow> heap \<Rightarrow> ref \<times> heap" where
  "heap_alloc bytes h = (length h, h @ [bytes])"

definition heap_set :: "ref \<Rightarrow> ref \<Rightarrow> nat \<Rightarrow> heap \<Rightarrow> error + heap" where
  "heap_set target source offset h =
     (case Uint8Array_set (h ! target) (h ! source) offset of
        Inl e \<Rightarrow> Inl e
      | Inr bytes \<Rightarrow> Inr (h[target := bytes]))"

definition computeKeyId_upload_walrus_heap ::
  "(string \<Rightarrow> error + Uint8Array) \<Rightarrow> string \<Rightarrow> ref \<Rightarrow> heap \<Rightarrow> error + ref \<times> heap" where
  "computeKeyId_upload_walrus_heap dec sender nonce h =
     (let senderHex = (if startsWith sender ''0x'' then slice_from sender 2 else sender) in
      case dec senderHex of
        Inl e \<Rightarrow> Inl e
      | Inr decoded \<Rightarrow>
          (let (senderBytes, h1) = heap_alloc decoded h;
               (keyId, h2) =
                 heap_alloc (new_Uint8Array (length (h1 ! senderBytes) + length (h1 ! nonce))) h1
           in case heap_set keyId senderBytes 0 h2 of
                Inl e \<Rightarrow> Inl e
              | Inr h3 \<Rightarrow>
                  (case heap_set keyId nonce (length (h3 ! senderBytes)) h3 of
                     Inl e \<Rightarrow> Inl e
                   | Inr h4 \<Rightarrow> Inr (keyId, h4))))"

text \<open>What a caller can observe of a run: the error, or the bytes of the returned array.\<close>

definition returned_bytes :: "error + ref \<times> heap \<Rightarrow> error + Uint8Array" where
  "returned_bytes r = (case r of Inl e \<Rightarrow> Inl e | Inr (keyId, h) \<Rightarrow> Inr (h ! keyId))"


section \<open>Fetching a blob from the aggregators\<close>

text \<open>
  \<^verbatim>\<open>downloadBlobFromWalrus\<close> of \<^verbatim>\<open>down_encrypted_key.ts\<close> tries the aggregators of
  \<^verbatim>\<open>WALRUS_AGGREGATOR_URLS\<close> in order. For each it calls \<^verbatim>\<open>fetch\<close> under an
  \<^verbatim>\<open>AbortController\<close> that a 10 second timer aborts, returns the body when
  \<^verbatim>\<open>response.ok\<close>, and moves on to the next aggregator after a non-OK status or an
  exception, which the \<^verbatim>\<open>try\<close>/\<^verbatim>\<open>catch\<close> around the attempt swallows. After the last
  aggregator it returns \<^verbatim>\<open>null\<close>.

  The network is the environment: \<open>net url\<close> is what \<^verbatim>\<open>fetch(url, {signal})\<close> settles
  to, either a rejection (\<open>AbortError\<close> when the timer fired, \<open>TypeError\<close> for a
  network failure) or a response with its status and with what reading its body by
  \<^verbatim>\<open>arrayBuffer()\<close> gives. \<^verbatim>\<open>response.ok\<close> is true for the statuses 200 to 299.
  The console output is returned as a list of lines.
\<close>

record response =
  status :: nat
  arrayBuffer :: "error + byte list"

definition ok :: "response \<Rightarrow> bool" where
  "ok r = (200 \<le> status r \<and> status r \<le> 299)"

type_synonym network = "string \<Rightarrow> error + response"

datatype console =
    Trying_to_download_from string
  | Successfully_downloaded_from string
  | Failed_to_download_from string nat
  | Error_downloading_from string error
  | Blob_ID string
  | Downloading_encrypted_blob
  | Console_error string
  | Downloaded_blob nat
  | Download_successful
  | Saved_to string
  | File_size nat
  | Failed_to_download error
  | Uncaught error

definition WALRUS_AGGREGATOR_URLS :: "string list" where
  "WALRUS_AGGREGATOR_URLS = [''https://aggregator.walrus-testnet.walrus.space'']"

fun try_aggregators :: "network \<Rightarrow> string \<Rightarrow> string list \<Rightarrow> console list \<times> byte list option" where
  "try_aggregators net blobId [] = ([], None)"
| "try_aggregators net blobId (aggregator # rest) =
     (let aggregatorUrl = aggregator @ ''/v1/blobs/'' @ blobId;
          later = try_aggregators net blobId rest
      in case net aggregatorUrl of
           Inl err \<Rightarrow>
             (Trying_to_download_from aggregator # Error_downloading_from aggregator err # fst later,
              snd later)
         | Inr response \<Rightarrow>
             if ok response then
               (case arrayBuffer response of
                  Inl err \<Rightarrow>
                    (Trying_to_download_from aggregator # Successfully_downloaded_from aggregator
                       # Error_downloading_from aggregator err # fst later,
                     snd later)
                | Inr body \<Rightarrow>
                    ([Trying_to_download_from aggregator, Successfully_downloaded_from aggregator],
                     Some body))
             else
               (Trying_to_download_from aggregator
                  # Failed_to_download_from aggregator (status response) # fst later,
                snd later))"

definition downloadBlobFromWalrus :: "network \<Rightarrow> string \<Rightarrow> console list \<times> byte list option" where
  "downloadBlobFromWalrus net blobId = try_aggregators net blobId WALRUS_AGGREGATOR_URLS"

text \<open>
  \<^verbatim>\<open>main\<close> of the same script, from the point where the blob id is known. A
  \<^verbatim>\<open>null\<close> download prints \<open>errorMsg\<close> and ends the process by \<^verbatim>\<open>process.exit(1)\<close>.
  Otherwise the bytes are written below \<^verbatim>\<open>tmp/walrus/encrypted\<close>: \<open>save path bytes\<close>
  stands for the three file system calls of that step and gives the exception when one
  of them throws; \<^verbatim>\<open>main\<close> reports it and rethrows, and the handler on \<^verbatim>\<open>main()\<close>
  reports it again and exits with status 1.
\<close>

datatype process_end = Returned | Exit nat

definition errorMsg :: string where
  "errorMsg = ''Cannot retrieve file from Walrus aggregators. File uploaded more than 1 epoch ago may have been deleted.''"

definition outputDir :: string where
  "outputDir = ''../tmp/walrus/encrypted''"

definition main_from_blobId ::
  "network \<Rightarrow> (string \<Rightarrow> byte list \<Rightarrow> error option) \<Rightarrow> string \<Rightarrow> console list \<times> process_end" where
  "main_from_blobId net save blobId =
     (let (lines, downloadResult) = downloadBlobFromWalrus net blobId;
          shown = [Blob_ID blobId, Downloading_encrypted_blob] @ lines
      in case downloadResult of
           None \<Rightarrow> (shown @ [Console_error errorMsg], Exit 1)
         | Some bytes \<Rightarrow>
             (let outputPath = outputDir @ ''/encrypted_'' @ take 8 blobId @ ''.bin'' in
              case save outputPath bytes of
                Some err \<Rightarrow>
                  (shown @ [Downloaded_blob (length bytes), Failed_to_download err, Uncaught err],
                   Exit 1)
              | None \<Rightarrow>
                  (shown @ [Downloaded_blob (length bytes), Download_successful,
                            Saved_to outputPath, File_size (length bytes)],
                   Returned)))"

text \<open>
  An attempt fails when \<^verbatim>\<open>fetch\<close> rejects (time-out or network error), when the
  status is not OK, or when reading the body throws.
\<close>

definition attempt_fails :: "error + response \<Rightarrow> bool" where
  "attempt_fails r =
     (case r of
        Inl err \<Rightarrow> True
      | Inr response \<Rightarrow> \<not> ok response \<or> (case arrayBuffer response of Inl err \<Rightarrow> True | Inr body \<Rightarrow> False))"


section \<open>Facts about typed arrays\<close>

lemma set_prefix_of_fresh:
  "Uint8Array_set (new_Uint8Array (length a + k)) a 0 = Inr (a @ replicate k 0)"
  by (simp add: Uint8Array_set_def new_Uint8Array_def replicate_add)

lemma set_suffix_after_prefix:
  "Uint8Array_set (a @ replicate (length b) 0) b (length a) = Inr (a @ b)"
  by (simp add: Uint8Array_set_def)

lemma computeKeyId_upload_walrus_eq:
  "computeKeyId_upload_walrus dec sender nonce =
     (case dec (strip0x sender) of Inl e \<Rightarrow> Inl e | Inr p \<Rightarrow> Inr (p @ nonce))"
  by (simp add: computeKeyId_upload_walrus_def strip0x_def Let_def
      set_prefix_of_fresh set_suffix_after_prefix split: sum.splits)

lemma computeKeyId_download_walrus_eq:
  "computeKeyId_download_walrus dec sender nonce =
     (case dec (strip0x sender) of Inl e \<Rightarrow> Inl e | Inr p \<Rightarrow> Inr (p @ nonce))"
  by (simp add: computeKeyId_download_walrus_def strip0x_def Let_def
      set_prefix_of_fresh set_suffix_after_prefix split: sum.splits)

lemma computeKeyId_decrypt_sui_data_eq:
  "computeKeyId_decrypt_sui_data dec sender nonce =
     (case dec (strip0x sender) of Inl e \<Rightarrow> Inl e | Inr p \<Rightarrow> Inr (p @ nonce))"
  by (simp add: computeKeyId_decrypt_sui_data_def strip0x_def Let_def
      set_prefix_of_fresh set_suffix_after_prefix split: sum.splits)

lemma allowlist_keyId_eq:
  "allowlist_keyId dec allowlistId nonce =
     (case dec (strip0x allowlistId) of Inl e \<Rightarrow> Inl e | Inr p \<Rightarrow> Inr (p @ nonce))"
  by (simp add: allowlist_keyId_def strip0x_def Uint8Array_spread_def split: sum.splits)

lemma strip0x_0x: "strip0x (CHR ''0'' # CHR ''x'' # s) = s"
  by (simp add: strip0x_def startsWith_def slice_from_def)

lemma hex_string_not_0x: "hex_string s \<Longrightarrow> \<not> startsWith s ''0x''"
proof
  assume h: "hex_string s" and p: "startsWith s ''0x''"
  from p obtain r where s: "s = CHR ''0'' # CHR ''x'' # r"
    by (cases s; cases "tl s") (auto simp: startsWith_def)
  from h s have "is_hex_digit CHR ''x''"
    by (simp add: hex_string_def)
  then show False
    by (simp add: is_hex_digit_def hexval_def)
qed

lemma strip0x_hex_string: "hex_string s \<Longrightarrow> strip0x s = s"
  using hex_string_not_0x by (simp add: strip0x_def)

text \<open>On a store, a run allocates the decoded sender and then the identifier.\<close>

lemma computeKeyId_upload_walrus_heap_eq:
  assumes "nonce < length h"
  shows "computeKeyId_upload_walrus_heap dec sender nonce h =
     (case dec (strip0x sender) of
        Inl e \<Rightarrow> Inl e
      | Inr p \<Rightarrow> Inr (Suc (length h), h @ [p, p @ h ! nonce]))"
  using assms
  by (simp add: computeKeyId_upload_walrus_heap_def strip0x_def Let_def heap_alloc_def heap_set_def
      nth_append set_prefix_of_fresh set_suffix_after_prefix list_update_append split: sum.splits)


section \<open>Facts about the hex decoder and the aggregator loop\<close>

lemma fromHex_cases:
  "(well_formed_hex s \<and> (\<exists>bytes. fromHex s = Inr bytes \<and> 2 * length bytes = length s))
   \<or> (\<not> well_formed_hex s \<and> fromHex s = Inl MalformedHexInput)"
  by (induction s rule: fromHex.induct)
     (auto simp: well_formed_hex_def hex_string_def is_hex_digit_def split: option.splits sum.splits)

lemma try_aggregators_None:
  "(snd (try_aggregators net blobId aggregators) = None)
     = list_all (\<lambda>a. attempt_fails (net (a @ ''/v1/blobs/'' @ blobId))) aggregators"
  by (induction aggregators)
     (auto simp: attempt_fails_def Let_def split: sum.splits)


section \<open>Properties of the derivation\<close>

text \<open>
  C1. For every prefix \<open>p\<close> (the bytes the sender text decodes to) and every nonce
  \<open>n\<close>, of any lengths, \<open>computeKeyId\<close> of \<^verbatim>\<open>upload_walrus.ts\<close> returns the byte
  sequence \<open>p\<close> followed immediately by \<open>n\<close>: its length is the sum of both lengths,
  its first \<open>length p\<close> bytes are \<open>p\<close> and the rest is \<open>n\<close>; nothing is reordered
  and no delimiter, length prefix or padding is inserted.
\<close>

theorem computeKeyId_concatenates:
  assumes "dec (strip0x sender) = Inr p"
  shows "\<exists>keyId. computeKeyId_upload_walrus dec sender n = Inr keyId
           \<and> keyId = p @ n
           \<and> length keyId = length p + length n
           \<and> take (length p) keyId = p
           \<and> drop (length p) keyId = n"
  using assms by (simp add: computeKeyId_upload_walrus_eq)

theorem computeKeyId_concatenates_witness:
  "fromHex (strip0x ''0xa1B2'') = Inr [0xA1, 0xB2]
   \<and> computeKeyId_upload_walrus fromHex ''0xa1B2'' [1, 2, 3] = Inr [0xA1, 0xB2, 1, 2, 3]"
proof -
  have h: "fromHex (strip0x ''0xa1B2'') = Inr [0xA1, 0xB2]"
    by (simp add: strip0x_def startsWith_def slice_from_def hexval_def)
  from computeKeyId_concatenates [of fromHex "''0xa1B2''" "[0xA1, 0xB2]" "[1, 2, 3]"] h
  show ?thesis
    by simp
qed

text \<open>
  C2. Two different prefixes \<open>p1\<close>, \<open>p2\<close> of the same length never give the same
  identifier for one nonce. This holds between two calls of \<open>computeKeyId\<close>, and
  between the policy-bound derivation of the allowlist script (prefix: the policy
  object's address) and the address-bound \<open>computeKeyId\<close> (prefix: the requester's
  address) called with the same nonce.
\<close>

theorem distinct_prefixes_distinct_identifiers:
  assumes "dec (strip0x s1) = Inr p1" and "dec (strip0x s2) = Inr p2"
    and "p1 \<noteq> p2" and "length p1 = length p2"
  shows "computeKeyId_upload_walrus dec s1 n \<noteq> computeKeyId_upload_walrus dec s2 n
       \<and> allowlist_keyId dec s1 n \<noteq> computeKeyId_upload_walrus dec s2 n"
  using assms by (simp add: computeKeyId_upload_walrus_eq allowlist_keyId_eq)

theorem distinct_prefixes_distinct_identifiers_witness:
  "fromHex (strip0x ''0xa1b2'') = Inr [0xA1, 0xB2]
   \<and> fromHex (strip0x ''0xa1b3'') = Inr [0xA1, 0xB3]
   \<and> [0xA1, 0xB2] \<noteq> [0xA1, 0xB3 :: byte]
   \<and> length [0xA1, 0xB2 :: byte] = length [0xA1, 0xB3 :: byte]
   \<and> computeKeyId_upload_walrus fromHex ''0xa1b2'' [7, 8, 9]
       \<noteq> computeKeyId_upload_walrus fromHex ''0xa1b3'' [7, 8, 9]
   \<and> allowlist_keyId fromHex ''0xa1b2'' [7, 8, 9]
       \<noteq> computeKeyId_upload_walrus fromHex ''0xa1b3'' [7, 8, 9]"
proof -
  have h1: "fromHex (strip0x ''0xa1b2'') = Inr [0xA1, 0xB2]"
    by (simp add: strip0x_def startsWith_def slice_from_def hexval_def)
  have h2: "fromHex (strip0x ''0xa1b3'') = Inr [0xA1, 0xB3]"
    by (simp add: strip0x_def startsWith_def slice_from_def hexval_def)
  have h3: "[0xA1, 0xB2] \<noteq> [0xA1, 0xB3 :: byte]"
    by simp
  have h4: "length [0xA1, 0xB2 :: byte] = length [0xA1, 0xB3 :: byte]"
    by simp
  from distinct_prefixes_distinct_identifiers
    [of fromHex "''0xa1b2''" "[0xA1, 0xB2]" "''0xa1b3''" "[0xA1, 0xB3]" "[7, 8, 9]", OF h1 h2 h3 h4]
    h1 h2 h3 h4
  show ?thesis
    by blast
qed

text \<open>
  C5. A leading \<^verbatim>\<open>0x\<close> on the prefix text is stripped before decoding: for every
  hex string \<open>s\<close> and nonce \<open>n\<close>, the derivation applied to \<^verbatim>\<open>"0x" + s\<close> gives the
  same result as applied to \<open>s\<close>, in \<open>computeKeyId\<close> and in the inline derivation of
  the allowlist script.
\<close>

theorem hex_prefix_0x_is_stripped:
  assumes "hex_string s"
  shows "computeKeyId_upload_walrus dec (''0x'' @ s) n = computeKeyId_upload_walrus dec s n
       \<and> allowlist_keyId dec (''0x'' @ s) n = allowlist_keyId dec s n"
  using assms
  by (simp add: computeKeyId_upload_walrus_eq allowlist_keyId_eq strip0x_0x strip0x_hex_string)

theorem hex_prefix_0x_is_stripped_witness:
  "hex_string ''c0ffee''
   \<and> computeKeyId_upload_walrus fromHex (''0x'' @ ''c0ffee'') [1, 2]
       = computeKeyId_upload_walrus fromHex ''c0ffee'' [1, 2]
   \<and> allowlist_keyId fromHex (''0x'' @ ''c0ffee'') [1, 2] = allowlist_keyId fromHex ''c0ffee'' [1, 2]
   \<and> computeKeyId_upload_walrus fromHex ''c0ffee'' [1, 2] = Inr [0xC0, 0xFF, 0xEE, 1, 2]"
proof -
  have h: "hex_string ''c0ffee''"
    by (simp add: hex_string_def is_hex_digit_def hexval_def)
  have v: "computeKeyId_upload_walrus fromHex ''c0ffee'' [1, 2] = Inr [0xC0, 0xFF, 0xEE, 1, 2]"
    by (simp add: computeKeyId_upload_walrus_eq strip0x_def startsWith_def hexval_def)
  from hex_prefix_0x_is_stripped [of "''c0ffee''" fromHex "[1, 2]", OF h] h v
  show ?thesis
    by blast
qed

text \<open>
  C7. All derivations compute the same function: the three copies of
  \<open>computeKeyId\<close> and the inline policy-bound derivation of the allowlist script
  return the same bytes (or the same decoding error) for the same prefix text and
  nonce, and the two scripts that encode the identifier for transport produce the same
  text.
\<close>

theorem all_derivations_agree:
  "computeKeyId_download_walrus dec s n = computeKeyId_upload_walrus dec s n
   \<and> computeKeyId_decrypt_sui_data dec s n = computeKeyId_upload_walrus dec s n
   \<and> allowlist_keyId dec s n = computeKeyId_upload_walrus dec s n
   \<and> allowlist_encryptionId dec enc s n = upload_encryptionId dec enc s n"
  by (simp add: computeKeyId_upload_walrus_eq computeKeyId_download_walrus_eq
      computeKeyId_decrypt_sui_data_eq allowlist_keyId_eq
      allowlist_encryptionId_def upload_encryptionId_def)

text \<open>
  C8. For one prefix and two different nonces, \<open>computeKeyId\<close> of
  \<^verbatim>\<open>download_walrus.ts\<close> returns two different identifiers; they have the same total
  length when the two nonces have the same length. Two nonces of different lengths
  give identifiers of different lengths.
\<close>

theorem distinct_nonces_distinct_identifiers:
  assumes "dec (strip0x s) = Inr p" and "n1 \<noteq> n2"
  shows "\<exists>k1 k2. computeKeyId_download_walrus dec s n1 = Inr k1
           \<and> computeKeyId_download_walrus dec s n2 = Inr k2
           \<and> k1 \<noteq> k2
           \<and> (length k1 = length k2) = (length n1 = length n2)"
  using assms by (simp add: computeKeyId_download_walrus_eq)

theorem distinct_nonces_distinct_identifiers_witness:
  "fromHex (strip0x ''0xa1b2'') = Inr [0xA1, 0xB2]
   \<and> [1, 2, 3, 4, 5] \<noteq> [1, 2, 3, 4, 6 :: byte]
   \<and> computeKeyId_download_walrus fromHex ''0xa1b2'' [1, 2, 3, 4, 5] = Inr [0xA1, 0xB2, 1, 2, 3, 4, 5]
   \<and> computeKeyId_download_walrus fromHex ''0xa1b2'' [1, 2, 3, 4, 6] = Inr [0xA1, 0xB2, 1, 2, 3, 4, 6]"
proof -
  have h: "fromHex (strip0x ''0xa1b2'') = Inr [0xA1, 0xB2]"
    by (simp add: strip0x_def startsWith_def slice_from_def hexval_def)
  have d: "[1, 2, 3, 4, 5] \<noteq> [1, 2, 3, 4, 6 :: byte]"
    by simp
  from distinct_nonces_distinct_identifiers
    [of fromHex "''0xa1b2''" "[0xA1, 0xB2]" "[1, 2, 3, 4, 5]" "[1, 2, 3, 4, 6]", OF h d] h d
  show ?thesis
    by (simp add: computeKeyId_download_walrus_eq)
qed

theorem same_length_identifiers_counterexample:
  "[1] \<noteq> [1, 2 :: byte]
   \<and> computeKeyId_download_walrus fromHex ''0xa1b2'' [1] = Inr [0xA1, 0xB2, 1]
   \<and> computeKeyId_download_walrus fromHex ''0xa1b2'' [1, 2] = Inr [0xA1, 0xB2, 1, 2]
   \<and> length [0xA1, 0xB2, 1 :: byte] \<noteq> length [0xA1, 0xB2, 1, 2 :: byte]"
  by (simp add: computeKeyId_download_walrus_def startsWith_def slice_from_def hexval_def
      new_Uint8Array_def Uint8Array_set_def)

text \<open>
  C3. \<open>computeKeyId\<close> has one way to fail, the rejection of the 0x-stripped sender
  text by the hex decoder, and it passes the decoder's error on; this holds for every
  decoder. With the decoder of the spec: a text of odd length or with a non-hex
  character gives \<open>MalformedHexInput\<close>, a well-formed text always gives an identifier,
  and the prefix \<^verbatim>\<open>"0xZZ"\<close> gives \<open>MalformedHexInput\<close>, whatever the nonce. Run on a
  store, with any decoder, the function writes no array that existed before the call:
  a failure is the decoder's and happens before anything is allocated, and a success
  returns a new array and leaves the old arrays unchanged.
\<close>

theorem computeKeyId_only_rejects_malformed_hex:
  "(\<forall>e. (computeKeyId_upload_walrus dec sender n = Inl e) = (dec (strip0x sender) = Inl e))
   \<and> (\<not> well_formed_hex (strip0x sender)
        \<longrightarrow> computeKeyId_upload_walrus fromHex sender n = Inl MalformedHexInput)
   \<and> (well_formed_hex (strip0x sender)
        \<longrightarrow> (\<exists>keyId. computeKeyId_upload_walrus fromHex sender n = Inr keyId))
   \<and> computeKeyId_upload_walrus fromHex ''0xZZ'' n = Inl MalformedHexInput
   \<and> (nonce < length h \<longrightarrow>
        (case computeKeyId_upload_walrus_heap dec sender nonce h of
           Inl e \<Rightarrow> dec (strip0x sender) = Inl e
         | Inr (keyId, h') \<Rightarrow>
             length h \<le> keyId \<and> keyId < length h' \<and> take (length h) h' = h))"
proof -
  have only_decoder:
    "\<forall>e. (computeKeyId_upload_walrus dec sender n = Inl e) = (dec (strip0x sender) = Inl e)"
    by (simp add: computeKeyId_upload_walrus_eq split: sum.splits)
  have malformed: "\<not> well_formed_hex (strip0x sender)
        \<longrightarrow> computeKeyId_upload_walrus fromHex sender n = Inl MalformedHexInput"
    using fromHex_cases [of "strip0x sender"] by (auto simp: computeKeyId_upload_walrus_eq)
  have well_formed: "well_formed_hex (strip0x sender)
        \<longrightarrow> (\<exists>keyId. computeKeyId_upload_walrus fromHex sender n = Inr keyId)"
    using fromHex_cases [of "strip0x sender"] by (auto simp: computeKeyId_upload_walrus_eq)
  have zz: "computeKeyId_upload_walrus fromHex ''0xZZ'' n = Inl MalformedHexInput"
    by (simp add: computeKeyId_upload_walrus_eq strip0x_0x hexval_def)
  have frame: "nonce < length h \<longrightarrow>
        (case computeKeyId_upload_walrus_heap dec sender nonce h of
           Inl e \<Rightarrow> dec (strip0x sender) = Inl e
         | Inr (keyId, h') \<Rightarrow>
             length h \<le> keyId \<and> keyId < length h' \<and> take (length h) h' = h)"
    by (simp add: computeKeyId_upload_walrus_heap_eq split: sum.splits)
  from only_decoder malformed well_formed zz frame show ?thesis
    by blast
qed

theorem computeKeyId_only_rejects_malformed_hex_witness:
  "\<not> well_formed_hex (strip0x ''0xabc'')
   \<and> computeKeyId_upload_walrus fromHex ''0xabc'' [1] = Inl MalformedHexInput
   \<and> well_formed_hex (strip0x ''0xa1b2'')
   \<and> computeKeyId_upload_walrus fromHex ''0xa1b2'' [1] = Inr [0xA1, 0xB2, 1]
   \<and> (0 :: nat) < length [[1 :: byte]]
   \<and> computeKeyId_upload_walrus_heap fromHex ''0xa1b2'' 0 [[1]]
       = Inr (2, [[1], [0xA1, 0xB2], [0xA1, 0xB2, 1]])"
proof -
  have odd_len: "\<not> well_formed_hex (strip0x ''0xabc'')"
    by (simp add: well_formed_hex_def strip0x_0x)
  have even_len: "well_formed_hex (strip0x ''0xa1b2'')"
    by (simp add: well_formed_hex_def strip0x_0x hex_string_def is_hex_digit_def hexval_def)
  have valid: "(0 :: nat) < length [[1 :: byte]]"
    by simp
  have res: "computeKeyId_upload_walrus fromHex ''0xa1b2'' [1] = Inr [0xA1, 0xB2, 1]"
    by (simp add: computeKeyId_upload_walrus_eq strip0x_0x hexval_def)
  have run: "computeKeyId_upload_walrus_heap fromHex ''0xa1b2'' 0 [[1]]
       = Inr (2, [[1], [0xA1, 0xB2], [0xA1, 0xB2, 1]])"
    by (simp add: computeKeyId_upload_walrus_heap_eq strip0x_0x hexval_def)
  from computeKeyId_only_rejects_malformed_hex [of fromHex "''0xabc''" "[1]" 0 "[[1]]"]
    computeKeyId_only_rejects_malformed_hex [of fromHex "''0xa1b2''" "[1]" 0 "[[1]]"]
    odd_len even_len valid res run
  show ?thesis
    by blast
qed

text \<open>
  C6. The example vector: for the address of 32 bytes \<^verbatim>\<open>0xAA\<close> and the nonce
  \<^verbatim>\<open>01 02 03 04 05\<close>, \<open>computeKeyId\<close> returns the 37 bytes made of the 32 bytes
  \<^verbatim>\<open>0xAA\<close> followed by the nonce, and \<^verbatim>\<open>main\<close> of \<^verbatim>\<open>upload_walrus.ts\<close> encodes them
  as 64 characters \<^verbatim>\<open>a\<close> followed by \<^verbatim>\<open>0102030405\<close>.
\<close>

theorem identifier_example_vector:
  "computeKeyId_upload_walrus fromHex (''0x'' @ concat (replicate 32 ''aa'')) [1, 2, 3, 4, 5]
     = Inr (replicate 32 0xAA @ [1, 2, 3, 4, 5])
   \<and> length (replicate 32 (0xAA :: byte) @ [1, 2, 3, 4, 5]) = 37
   \<and> upload_encryptionId fromHex toHex (''0x'' @ concat (replicate 32 ''aa'')) [1, 2, 3, 4, 5]
     = Inr (replicate 64 CHR ''a'' @ ''0102030405'')"
  by code_simp

text \<open>
  C9. \<open>computeKeyId\<close> is deterministic and reads no hidden state: two runs with the
  same sender text, started in any two stores in which the nonce arrays hold the same
  bytes, end alike, with the same error or with returned arrays of the same bytes,
  whatever else the stores hold; and that result is the one computed from the sender
  text and the nonce bytes alone.
\<close>

theorem computeKeyId_two_runs_agree:
  assumes "nonce1 < length h1" and "nonce2 < length h2" and "h1 ! nonce1 = h2 ! nonce2"
  shows "returned_bytes (computeKeyId_upload_walrus_heap dec sender nonce1 h1)
           = returned_bytes (computeKeyId_upload_walrus_heap dec sender nonce2 h2)
       \<and> returned_bytes (computeKeyId_upload_walrus_heap dec sender nonce1 h1)
           = computeKeyId_upload_walrus dec sender (h1 ! nonce1)"
  using assms
  by (simp add: computeKeyId_upload_walrus_heap_eq computeKeyId_upload_walrus_eq returned_bytes_def
      nth_append split: sum.splits)

theorem computeKeyId_two_runs_agree_witness:
  "(1 :: nat) < length [[9, 9], [1, 2, 3 :: byte]]
   \<and> (0 :: nat) < length [[1, 2, 3 :: byte]]
   \<and> [[9, 9], [1, 2, 3 :: byte]] ! 1 = [[1, 2, 3]] ! 0
   \<and> returned_bytes (computeKeyId_upload_walrus_heap fromHex ''0xa1b2'' 1 [[9, 9], [1, 2, 3]])
       = Inr [0xA1, 0xB2, 1, 2, 3]
   \<and> returned_bytes (computeKeyId_upload_walrus_heap fromHex ''0xa1b2'' 0 [[1, 2, 3]])
       = Inr [0xA1, 0xB2, 1, 2, 3]"
proof -
  have r1: "(1 :: nat) < length [[9, 9], [1, 2, 3 :: byte]]"
    by simp
  have r2: "(0 :: nat) < length [[1, 2, 3 :: byte]]"
    by simp
  have same: "[[9, 9], [1, 2, 3 :: byte]] ! 1 = [[1, 2, 3]] ! 0"
    by simp
  have res: "computeKeyId_upload_walrus fromHex ''0xa1b2'' ([[9, 9], [1, 2, 3]] ! 1)
       = Inr [0xA1, 0xB2, 1, 2, 3]"
    by (simp add: computeKeyId_upload_walrus_eq strip0x_0x hexval_def)
  from computeKeyId_two_runs_agree
    [of 1 "[[9, 9], [1, 2, 3]]" 0 "[[1, 2, 3]]" fromHex "''0xa1b2''", OF r1 r2 same]
    r1 r2 same res
  show ?thesis
    by metis
qed


section \<open>Properties of the blob download\<close>

text \<open>
  C10. When every aggregator of the list fails (a non-OK status, a time-out, a network
  error or a body that cannot be read), \<open>downloadBlobFromWalrus\<close> returns \<^verbatim>\<open>null\<close>;
  it has no other way to end without the bytes and raises nothing. \<^verbatim>\<open>main\<close> then
  prints the message that the file may have been deleted after its storage epoch and
  exits with status 1, without reaching the file system step and without an exception.
\<close>

theorem download_failure_is_null:
  assumes "list_all (\<lambda>a. attempt_fails (net (a @ ''/v1/blobs/'' @ blobId))) WALRUS_AGGREGATOR_URLS"
  shows "snd (downloadBlobFromWalrus net blobId) = None
       \<and> main_from_blobId net save blobId
           = ([Blob_ID blobId, Downloading_encrypted_blob] @ fst (downloadBlobFromWalrus net blobId)
                @ [Console_error errorMsg], Exit 1)"
proof -
  have "snd (downloadBlobFromWalrus net blobId) = None"
    using assms by (simp only: downloadBlobFromWalrus_def try_aggregators_None)
  then show ?thesis
    by (cases "downloadBlobFromWalrus net blobId") (simp add: main_from_blobId_def)
qed

theorem download_failure_is_null_witness:
  "list_all (\<lambda>a. attempt_fails ((\<lambda>url. Inl AbortError) (a @ ''/v1/blobs/'' @ ''blob1'')))
     WALRUS_AGGREGATOR_URLS
   \<and> downloadBlobFromWalrus (\<lambda>url. Inl AbortError) ''blob1''
       = ([Trying_to_download_from ''https://aggregator.walrus-testnet.walrus.space'',
           Error_downloading_from ''https://aggregator.walrus-testnet.walrus.space'' AbortError],
          None)
   \<and> snd (main_from_blobId (\<lambda>url. Inl AbortError) (\<lambda>path bytes. None) ''blob1'') = Exit 1"
proof -
  have fails: "list_all (\<lambda>a. attempt_fails ((\<lambda>url. Inl AbortError) (a @ ''/v1/blobs/'' @ ''blob1'')))
     WALRUS_AGGREGATOR_URLS"
    by (simp add: attempt_fails_def WALRUS_AGGREGATOR_URLS_def)
  have run: "downloadBlobFromWalrus (\<lambda>url. Inl AbortError) ''blob1''
       = ([Trying_to_download_from ''https://aggregator.walrus-testnet.walrus.space'',
           Error_downloading_from ''https://aggregator.walrus-testnet.walrus.space'' AbortError],
          None)"
    by (simp add: downloadBlobFromWalrus_def WALRUS_AGGREGATOR_URLS_def)
  from download_failure_is_null
    [of "\<lambda>url. Inl AbortError" "''blob1''" "\<lambda>path bytes. None", OF fails] fails run
  show ?thesis
    by simp
qed

end
